theory Spec2Isabelle
  imports Main "HOL-Library.Sublist" "HOL-Library.Signed_Division"
begin

section \<open>Text, bytes and exceptions\<close>

text \<open>
  A Python \<open>str\<close> is a sequence of Unicode code points, so it is modelled as a list of
  natural numbers (\<open>ord c\<close> is the element itself) and \<open>len\<close> counts code points.
  A Python \<open>bytes\<close> value is a list of 8-bit characters. \<open>str ''abc''\<close> is the text
  whose code points are those of the ASCII literal.
\<close>

type_synonym pystr = "nat list"
type_synonym bytes = "char list"

abbreviation cp :: "char \<Rightarrow> nat" where
  "cp c \<equiv> of_char c"

abbreviation str :: "string \<Rightarrow> pystr" where
  "str s \<equiv> map of_char s"

text \<open>
  The exceptions that the modelled code can raise. \<open>KeyError\<close> carries the key of the
  failed lookup, \<open>IOError\<close> the message passed by \<open>read\<close>; the arguments of the
  other exceptions are not modelled. \<open>BrokenPipeError\<close> is what the transport's
  \<open>write\<close> raises on a connection that the peer has closed.
\<close>

datatype error =
    UnboundLocalError
  | KeyError pystr
  | IOError pystr
  | EOFError
  | UnicodeDecodeError
  | UnicodeEncodeError
  | ValueError
  | IndexError
  | BrokenPipeError

text \<open>The strings an exception carries in its \<open>args\<close>.\<close>

fun error_args :: "error \<Rightarrow> pystr list" where
  "error_args (KeyError k) = [k]"
| "error_args (IOError m) = [m]"
| "error_args e = []"

definition bind_err :: "error + 'a \<Rightarrow> ('a \<Rightarrow> error + 'b) \<Rightarrow> error + 'b" where
  "bind_err r f = (case r of Inl e \<Rightarrow> Inl e | Inr x \<Rightarrow> f x)"

section \<open>Utility functions\<close>

subsection \<open>sanitize\<close>

text \<open>
  \<^verbatim>\<open>return "".join([c for c in s if (31 < ord(c) < 127) or (c == '\n')])\<close>
\<close>

primrec sanitize :: "pystr \<Rightarrow> pystr" where
  "sanitize [] = []"
| "sanitize (c # s) =
     (if (31 < c \<and> c < 127) \<or> c = cp CHR 0x0A then c # sanitize s else sanitize s)"

subsection \<open>String methods of the standard library\<close>

text \<open>
  The characters that \<open>str.strip()\<close> and \<open>str.split()\<close> treat as whitespace
  (the interpreter's Unicode whitespace table).
\<close>

definition is_space :: "nat \<Rightarrow> bool" where
  "is_space c \<longleftrightarrow>
     (0x09 \<le> c \<and> c \<le> 0x0D) \<or> (0x1C \<le> c \<and> c \<le> 0x20) \<or> c = 0x85 \<or> c = 0xA0 \<or>
     c = 0x1680 \<or> (0x2000 \<le> c \<and> c \<le> 0x200A) \<or> c = 0x2028 \<or> c = 0x2029 \<or>
     c = 0x202F \<or> c = 0x205F \<or> c = 0x3000"

definition strip :: "pystr \<Rightarrow> pystr" where
  "strip s = rev (dropWhile is_space (rev (dropWhile is_space s)))"

text \<open>\<open>s.split(c)\<close> for a one-character separator: never empty.\<close>

fun split_on :: "nat \<Rightarrow> pystr \<Rightarrow> pystr list" where
  "split_on c [] = [[]]"
| "split_on c (x # xs) =
     (if x = c then [] # split_on c xs
      else (case split_on c xs of [] \<Rightarrow> [[x]] | w # ws \<Rightarrow> (x # w) # ws))"

text \<open>
  \<open>s.split()\<close>: the maximal runs of non-whitespace characters. \<open>cur\<close> holds the
  characters of the run being read, last one first.
\<close>

fun words_from :: "pystr \<Rightarrow> pystr \<Rightarrow> pystr list" where
  "words_from cur [] = (if cur = [] then [] else [rev cur])"
| "words_from cur (x # xs) =
     (if is_space x then (if cur = [] then words_from [] xs else rev cur # words_from [] xs)
      else words_from (x # cur) xs)"

definition split_ws :: "pystr \<Rightarrow> pystr list" where
  "split_ws s = words_from [] s"

text \<open>\<open>sep.join(ws)\<close>\<close>

fun join :: "pystr \<Rightarrow> pystr list \<Rightarrow> pystr" where
  "join sep [] = []"
| "join sep [w] = w"
| "join sep (w # ws) = w @ sep @ join sep ws"

text \<open>\<open>xs[n]\<close> for a non-negative literal index.\<close>

definition index :: "'a list \<Rightarrow> nat \<Rightarrow> error + 'a" where
  "index xs n = (if n < length xs then Inr (xs ! n) else Inl IndexError)"

text \<open>\<open>u.endswith(s)\<close> and \<open>u[:-n]\<close>; in Python \<open>u[:-0]\<close> is \<open>u[:0]\<close>, the empty text.\<close>

definition endswith :: "'a list \<Rightarrow> 'a list \<Rightarrow> bool" where
  "endswith u s \<longleftrightarrow> length s \<le> length u \<and> drop (length u - length s) u = s"

definition drop_last :: "nat \<Rightarrow> 'a list \<Rightarrow> 'a list" where
  "drop_last n u = (if n = 0 then [] else take (length u - n) u)"

subsection \<open>merge_dicts\<close>

text \<open>
  \<^verbatim>\<open>result = {}
  for dictionary in dict_args:
      result.update(dictionary)\<close>
\<close>

definition merge_dicts :: "('k \<rightharpoonup> 'v) list \<Rightarrow> ('k \<rightharpoonup> 'v)" where
  "merge_dicts dict_args = foldl (\<lambda>result dictionary. result ++ dictionary) Map.empty dict_args"

subsection \<open>parse_key_value\<close>

text \<open>
  The inner loop \<^verbatim>\<open>for i in range(len(line))\<close>. \<open>cs\<close> is \<open>line[n:]\<close>, \<open>n\<close> the index the
  loop is about to bind to \<open>i\<close>. The result is \<open>pos\<close> and the loop variable \<open>i\<close> after
  the loop: \<open>i\<close> is a local variable of the function, so it keeps the value it had
  before the loop when the line is empty (\<open>None\<close> when it was never bound).
\<close>

fun scan :: "pystr \<Rightarrow> pystr \<Rightarrow> nat \<Rightarrow> int \<Rightarrow> int \<Rightarrow> nat option \<Rightarrow> int \<times> nat option" where
  "scan sep [] n level pos i = (pos, i)"
| "scan sep (c # cs) n level pos i =
     (if c = cp CHR ''('' then scan sep cs (Suc n) (level + 1) pos (Some n)
      else if c = cp CHR '')'' then scan sep cs (Suc n) (level - 1) pos (Some n)
      else if [c] = sep \<and> level = 0 then (int n, Some n)
      else scan sep cs (Suc n) level pos (Some n))"

text \<open>
  The outer loop, with the dictionary built so far and the current binding of \<open>i\<close>.
  The slices are taken at \<open>i\<close> (\<^verbatim>\<open>k = line[:i].strip()\<close>, \<^verbatim>\<open>v = line[i + 1:].strip()\<close>);
  \<open>pos\<close> is assigned but never read. Reading an unbound \<open>i\<close> raises
  \<open>UnboundLocalError\<close>.
\<close>

fun parse_lines ::
  "pystr \<Rightarrow> pystr list \<Rightarrow> (pystr \<rightharpoonup> pystr) \<Rightarrow> nat option \<Rightarrow> error + (pystr \<rightharpoonup> pystr)" where
  "parse_lines sep [] kv i = Inr kv"
| "parse_lines sep (line # lines) kv i =
     (case snd (scan sep line 0 0 (- 1) i) of
        None \<Rightarrow> Inl UnboundLocalError
      | Some j \<Rightarrow>
          (let k = strip (take j line); v = strip (drop (j + 1) line)
           in parse_lines sep lines (if k \<noteq> [] then kv(k \<mapsto> v) else kv) (Some j)))"

definition parse_key_value :: "pystr list \<Rightarrow> pystr \<Rightarrow> error + (pystr \<rightharpoonup> pystr)" where
  "parse_key_value lines sep = parse_lines sep lines Map.empty None"

subsection \<open>Conversions of the standard library\<close>

text \<open>
  \<open>int(s)\<close> and \<open>datetime.strptime(s, '%H:%M:%S')\<close> are modelled on ASCII text: the
  session only hands them text that \<open>sanitize\<close> has returned. \<open>int\<close> strips
  whitespace, reads an optional sign, then decimal digits in which single underscores
  may separate digits; the interpreter's configurable limit on the number of digits
  is not modelled.
\<close>

definition is_digit :: "nat \<Rightarrow> bool" where
  "is_digit c \<longleftrightarrow> 48 \<le> c \<and> c \<le> 57"

definition digit_val :: "nat \<Rightarrow> int" where
  "digit_val c = int c - 48"

fun int_digits :: "pystr \<Rightarrow> bool \<Rightarrow> int \<Rightarrow> int option" where
  "int_digits [] after_digit acc = (if after_digit then Some acc else None)"
| "int_digits (c # s) after_digit acc =
     (if is_digit c then int_digits s True (10 * acc + digit_val c)
      else if c = cp CHR ''_'' \<and> after_digit then int_digits s False acc
      else None)"

definition py_int :: "pystr \<Rightarrow> error + int" where
  "py_int s =
     (case strip s of
        [] \<Rightarrow> Inl ValueError
      | c # r \<Rightarrow>
          (if c = cp CHR ''-'' then
             (case int_digits r False 0 of None \<Rightarrow> Inl ValueError | Some n \<Rightarrow> Inr (- n))
           else if c = cp CHR ''+'' then
             (case int_digits r False 0 of None \<Rightarrow> Inl ValueError | Some n \<Rightarrow> Inr n)
           else
             (case int_digits (c # r) False 0 of None \<Rightarrow> Inl ValueError | Some n \<Rightarrow> Inr n)))"

text \<open>
  One numeric directive of the format: two digits when they form a value up to \<open>hi\<close>
  (\<open>%H\<close>: 23, \<open>%M\<close>: 59, \<open>%S\<close>: 61), otherwise one digit. The result is the value and
  the text that follows.
\<close>

fun field :: "int \<Rightarrow> pystr \<Rightarrow> (int \<times> pystr) option" where
  "field hi [] = None"
| "field hi [a] = (if is_digit a then Some (digit_val a, []) else None)"
| "field hi (a # b # r) =
     (if is_digit a \<and> is_digit b \<and> 10 * digit_val a + digit_val b \<le> hi
        then Some (10 * digit_val a + digit_val b, r)
      else if is_digit a then Some (digit_val a, b # r)
      else None)"

text \<open>
  \<open>datetime.strptime(s, '%H:%M:%S')\<close>, as (hour, minute, second). Text left over after
  the seconds and a second above 59 (which the \<open>datetime\<close> constructor rejects) raise
  \<open>ValueError\<close> like every other mismatch.
\<close>

definition strptime_HMS :: "pystr \<Rightarrow> error + (int \<times> int \<times> int)" where
  "strptime_HMS s =
     (case field 23 s of
        None \<Rightarrow> Inl ValueError
      | Some (hour, r1) \<Rightarrow>
          (case r1 of
             [] \<Rightarrow> Inl ValueError
           | c1 # s1 \<Rightarrow>
               if c1 \<noteq> cp CHR '':'' then Inl ValueError
               else
                 (case field 59 s1 of
                    None \<Rightarrow> Inl ValueError
                  | Some (minute, r2) \<Rightarrow>
                      (case r2 of
                         [] \<Rightarrow> Inl ValueError
                       | c2 # s2 \<Rightarrow>
                           if c2 \<noteq> cp CHR '':'' then Inl ValueError
                           else
                             (case field 61 s2 of
                                None \<Rightarrow> Inl ValueError
                              | Some (second, r3) \<Rightarrow>
                                  if r3 \<noteq> [] then Inl ValueError
                                  else if 59 < second then Inl ValueError
                                  else Inr (hour, minute, second))))))"

subsection \<open>UTF-8\<close>

text \<open>
  \<open>b.decode('utf-8')\<close> and \<open>s.encode('utf-8')\<close> with the default strict error
  handling; \<open>None\<close> stands for \<open>UnicodeDecodeError\<close> and \<open>UnicodeEncodeError\<close>.
\<close>

definition cont :: "char \<Rightarrow> bool" where
  "cont b \<longleftrightarrow> (0x80::nat) \<le> of_char b \<and> (of_char b :: nat) < 0xC0"

definition low6 :: "char \<Rightarrow> nat" where
  "low6 b = of_char b - 0x80"

fun decode_utf8 :: "bytes \<Rightarrow> pystr option" where
  "decode_utf8 [] = Some []"
| "decode_utf8 (b0 # bs) =
     (let x = (of_char b0 :: nat) in
      if x < 0x80 then map_option (Cons x) (decode_utf8 bs)
      else if 0xC2 \<le> x \<and> x < 0xE0 then
        (case bs of
           b1 # r \<Rightarrow>
             if cont b1 then map_option (Cons ((x - 0xC0) * 64 + low6 b1)) (decode_utf8 r)
             else None
         | _ \<Rightarrow> None)
      else if 0xE0 \<le> x \<and> x < 0xF0 then
        (case bs of
           b1 # b2 # r \<Rightarrow>
             (let c = (x - 0xE0) * 4096 + low6 b1 * 64 + low6 b2 in
              if cont b1 \<and> cont b2 \<and> 0x800 \<le> c \<and> \<not> (0xD800 \<le> c \<and> c < 0xE000)
              then map_option (Cons c) (decode_utf8 r) else None)
         | _ \<Rightarrow> None)
      else if 0xF0 \<le> x \<and> x < 0xF5 then
        (case bs of
           b1 # b2 # b3 # r \<Rightarrow>
             (let c = (x - 0xF0) * 262144 + low6 b1 * 4096 + low6 b2 * 64 + low6 b3 in
              if cont b1 \<and> cont b2 \<and> cont b3 \<and> 0x10000 \<le> c \<and> c < 0x110000
              then map_option (Cons c) (decode_utf8 r) else None)
         | _ \<Rightarrow> None)
      else None)"

definition encode_cp :: "nat \<Rightarrow> bytes option" where
  "encode_cp c =
     (if c < 0x80 then Some [char_of c]
      else if c < 0x800 then Some [char_of (0xC0 + c div 64), char_of (0x80 + c mod 64)]
      else if c < 0x10000 then
        (if 0xD800 \<le> c \<and> c < 0xE000 then None
         else Some [char_of (0xE0 + c div 4096), char_of (0x80 + c div 64 mod 64),
                    char_of (0x80 + c mod 64)])
      else if c < 0x110000 then
        Some [char_of (0xF0 + c div 262144), char_of (0x80 + c div 4096 mod 64),
              char_of (0x80 + c div 64 mod 64), char_of (0x80 + c mod 64)]
      else None)"

fun encode_utf8 :: "pystr \<Rightarrow> bytes option" where
  "encode_utf8 [] = Some []"
| "encode_utf8 (c # s) =
     (case encode_cp c of
        None \<Rightarrow> None
      | Some b \<Rightarrow> (case encode_utf8 s of None \<Rightarrow> None | Some bs \<Rightarrow> Some (b @ bs)))"

section \<open>The telnet transport\<close>

text \<open>
  The connection is the environment of the program. Its state is the script of what
  the successive calls of \<open>read_until\<close> will give, the buffers passed to \<open>write\<close> so
  far, and the number of calls of \<open>close\<close>. \<open>read_until\<close> returns the bytes up to the
  expected text, or whatever has arrived when the timeout expires or the peer closes
  the stream (\<open>Data\<close>); it raises \<open>EOFError\<close> when the stream is closed and nothing has
  arrived (\<open>Eof\<close>). A script that has run out is a peer that stays silent. \<open>write\<close>
  raises \<open>BrokenPipeError\<close> once the peer has closed the connection: \<open>breaks\<close> says
  for each coming call of \<open>write\<close> whether it does (a list that has run out: it does
  not), and a call that raises has written nothing. Both scripts are arbitrary, so a
  statement about every transport covers every behaviour of the device and every
  timeout.
\<close>

datatype reply = Data bytes | Eof

record transport =
  incoming :: "reply list"
  breaks :: "bool list"
  outgoing :: "bytes list"
  closed :: nat

definition read_until :: "transport \<Rightarrow> reply \<times> transport" where
  "read_until t =
     (case incoming t of
        [] \<Rightarrow> (Data [], t)
      | r # rs \<Rightarrow> (r, t\<lparr>incoming := rs\<rparr>))"

definition conn_write :: "bytes \<Rightarrow> transport \<Rightarrow> (error + unit) \<times> transport" where
  "conn_write b t =
     (case breaks t of
        [] \<Rightarrow> (Inr (), t\<lparr>outgoing := outgoing t @ [b]\<rparr>)
      | broken # rest \<Rightarrow>
          if broken then (Inl BrokenPipeError, t\<lparr>breaks := rest\<rparr>)
          else (Inr (), t\<lparr>breaks := rest, outgoing := outgoing t @ [b]\<rparr>))"

definition conn_close :: "transport \<Rightarrow> transport" where
  "conn_close t = t\<lparr>closed := closed t + 1\<rparr>"

section \<open>The TG585v8 session\<close>

text \<open>
  The object's attributes. \<open>timeout\<close> only decides what \<open>read_until\<close> returns, which
  the script fixes, so it is left out. \<open>connected\<close> is assigned during \<open>__init__\<close>; no
  method reads it before \<open>__init__\<close> has returned, and it starts as \<open>False\<close> here.
\<close>

record session =
  conn :: transport
  username :: pystr
  password :: pystr
  connected :: bool

text \<open>A method: it runs on the object and returns a value or raises, with the object
  (and the transport it owns) as the method left it.\<close>

type_synonym 'a act = "session \<Rightarrow> (error + 'a) \<times> session"

definition ret :: "'a \<Rightarrow> 'a act" where
  "ret x self = (Inr x, self)"

definition lift :: "error + 'a \<Rightarrow> 'a act" where
  "lift r self = (r, self)"

definition bind :: "'a act \<Rightarrow> ('a \<Rightarrow> 'b act) \<Rightarrow> 'b act" where
  "bind m f self =
     (case m self of
        (Inl e, self') \<Rightarrow> (Inl e, self')
      | (Inr x, self') \<Rightarrow> f x self')"

definition crlf :: pystr where
  "crlf = [13, 10]"

text \<open>
  \<^verbatim>\<open>data = self.conn.read_until(s.encode('utf-8'), self.timeout)
  if not data.decode('utf-8').endswith(s):  # timeout/error?
      raise IOError("Failed to read from telnet session.")
  else:
      return sanitize(data.decode('utf-8')[:-len(s)])\<close>
\<close>

definition read :: "pystr \<Rightarrow> pystr act" where
  "read s self =
     (case encode_utf8 s of
        None \<Rightarrow> (Inl UnicodeEncodeError, self)
      | Some expected \<Rightarrow>
          (case read_until (conn self) of
             (Eof, t) \<Rightarrow> (Inl EOFError, self\<lparr>conn := t\<rparr>)
           | (Data d, t) \<Rightarrow>
               (case decode_utf8 d of
                  None \<Rightarrow> (Inl UnicodeDecodeError, self\<lparr>conn := t\<rparr>)
                | Some u \<Rightarrow>
                    if \<not> endswith u s
                    then (Inl (IOError (str ''Failed to read from telnet session.'')),
                          self\<lparr>conn := t\<rparr>)
                    else (Inr (sanitize (drop_last (length s) u)), self\<lparr>conn := t\<rparr>))))"

text \<open>The method \<open>write\<close>: \<^verbatim>\<open>self.conn.write(s.encode('utf-8'))\<close>\<close>

definition write_str :: "pystr \<Rightarrow> unit act" where
  "write_str s self =
     (case encode_utf8 s of
        None \<Rightarrow> (Inl UnicodeEncodeError, self)
      | Some b \<Rightarrow> (case conn_write b (conn self) of (r, t) \<Rightarrow> (r, self\<lparr>conn := t\<rparr>)))"

text \<open>
  \<open>__init__\<close>, from the connected transport that \<open>telnetlib.Telnet(host, port)\<close>
  returns. \<open>username or 'Administrator'\<close> and \<open>password or ''\<close> replace \<open>None\<close> and the
  empty text. The last prompt is \<^verbatim>\<open>'{{{0}}}=>'.format(self.username)\<close>.
\<close>

definition init :: "transport \<Rightarrow> pystr option \<Rightarrow> pystr option \<Rightarrow> (error + unit) \<times> session" where
  "init t user pass =
     (let self = \<lparr>conn = t,
                  username = (case user of None \<Rightarrow> str ''Administrator''
                              | Some u \<Rightarrow> if u = [] then str ''Administrator'' else u),
                  password = (case pass of None \<Rightarrow> [] | Some p \<Rightarrow> p),
                  connected = False\<rparr>
      in bind (read (str ''Username : '')) (\<lambda>_.
         bind (write_str (username self @ crlf)) (\<lambda>_.
         bind (read (str ''Password : '')) (\<lambda>_.
         bind (write_str (password self @ crlf)) (\<lambda>_.
         bind (\<lambda>self. (Inr (), self\<lparr>connected := True\<rparr>)) (\<lambda>_.
         bind (read (str ''{'' @ username self @ str ''}=>'')) (\<lambda>_.
         ret ())))))) self)"

text \<open>
  \<^verbatim>\<open>self.write(command + '\r\n')
  self.read('\r\n')  # seek to prompt end
  return self.read('{{{0}}}'.format(self.username))\<close>
\<close>

definition send :: "pystr \<Rightarrow> pystr act" where
  "send command =
     bind (write_str (command @ crlf)) (\<lambda>_.
     bind (read crlf) (\<lambda>_.
     (\<lambda>self. read (str ''{'' @ username self @ str ''}'') self)))"

text \<open>
  \<^verbatim>\<open>if self.connected:
      self.write('exit\r\n')
  self.conn.close()\<close>
  The method returns \<open>None\<close>, so an exception of the block is not suppressed. When
  the write raises, \<open>close\<close> is not reached.
\<close>

definition exit :: "unit act" where
  "exit =
     bind (\<lambda>self. if connected self then write_str (str ''exit'' @ crlf) self else (Inr (), self)) (\<lambda>_.
     (\<lambda>self. (Inr (), self\<lparr>conn := conn_close (conn self)\<rparr>)))"

text \<open>\<^verbatim>\<open>for _ in range(4): self.send('..')\<close>\<close>

fun for_range :: "nat \<Rightarrow> unit act \<Rightarrow> unit act" where
  "for_range 0 body = ret ()"
| "for_range (Suc n) body = bind body (\<lambda>_. for_range n body)"

definition reset_level :: "unit act" where
  "reset_level = for_range 4 (bind (send (str ''..'')) (\<lambda>_. ret ()))"

definition keepalive :: "unit act" where
  "keepalive = bind (send (str ''help'')) (\<lambda>_. ret ())"

section \<open>The device profile\<close>

record xdsl_info =
  state :: pystr
  uptime :: int
  dsl_type :: pystr
  bandwidth_down :: int
  bandwidth_up :: int

record iface =
  tx :: int
  rx :: int

datatype group = XdslInfo xdsl_info | IfList "pystr \<rightharpoonup> iface"

text \<open>\<open>kv[k]\<close>\<close>

definition lookup :: "(pystr \<rightharpoonup> 'v) \<Rightarrow> pystr \<Rightarrow> error + 'v" where
  "lookup kv k = (case kv k of None \<Rightarrow> Inl (KeyError k) | Some v \<Rightarrow> Inr v)"

text \<open>
  Lines 146 to 149 of \<open>get_xdsl_info\<close>:
  \<^verbatim>\<open>days = int(uptime_str.split(',')[0].strip().split(' ')[0])
  hms = uptime_str.split(',')[1].strip()
  t = datetime.strptime(hms, '%H:%M:%S')
  uptime = days * 3600 * 24 + t.hour * 3600 + t.minute * 60 + t.second\<close>
\<close>

definition xdsl_uptime :: "pystr \<Rightarrow> error + int" where
  "xdsl_uptime uptime_str =
     bind_err (index (split_on (cp CHR '','') uptime_str) 0) (\<lambda>a.
     bind_err (index (split_on (cp CHR '' '') (strip a)) 0) (\<lambda>b.
     bind_err (py_int b) (\<lambda>days.
     bind_err (index (split_on (cp CHR '','') uptime_str) 1) (\<lambda>c.
     bind_err (strptime_HMS (strip c)) (\<lambda>(hour, minute, second).
     Inr (days * 3600 * 24 + hour * 3600 + minute * 60 + second))))))"

text \<open>
  Lines 152 and 153; \<open>//\<close> is floor division, as \<open>div\<close> on \<open>int\<close> is:
  \<^verbatim>\<open>bwd = 1000 * int(bandwidth_str.split('/')[0]) // 8
  bwu = 1000 * int(bandwidth_str.split('/')[1]) // 8\<close>
\<close>

definition xdsl_bandwidth :: "pystr \<Rightarrow> error + int \<times> int" where
  "xdsl_bandwidth bandwidth_str =
     bind_err (index (split_on (cp CHR ''/'') bandwidth_str) 0) (\<lambda>a.
     bind_err (py_int a) (\<lambda>down.
     bind_err (index (split_on (cp CHR ''/'') bandwidth_str) 1) (\<lambda>b.
     bind_err (py_int b) (\<lambda>up.
     Inr (1000 * down div 8, 1000 * up div 8)))))"

definition uptime_key :: pystr where
  "uptime_key = str ''Up time (Days hh:mm:ss)''"

definition bandwidth_key :: pystr where
  "bandwidth_key = str ''Bandwidth (Down/Up - kbit/s)''"

definition state_key :: pystr where
  "state_key = str ''Modem state''"

definition type_key :: pystr where
  "type_key = str ''xDSL Type''"

definition xdsl_fields :: "(pystr \<rightharpoonup> pystr) \<Rightarrow> error + (pystr \<rightharpoonup> group)" where
  "xdsl_fields kv =
     bind_err (lookup kv uptime_key) (\<lambda>uptime_str.
     bind_err (xdsl_uptime uptime_str) (\<lambda>up.
     bind_err (lookup kv bandwidth_key) (\<lambda>bandwidth_str.
     bind_err (xdsl_bandwidth bandwidth_str) (\<lambda>(bwd, bwu).
     bind_err (lookup kv state_key) (\<lambda>st.
     bind_err (lookup kv type_key) (\<lambda>ty.
     Inr [str ''xdsl-info'' \<mapsto>
            XdslInfo \<lparr>state = st, uptime = up, dsl_type = ty,
                      bandwidth_down = bwd, bandwidth_up = bwu\<rparr>]))))))"

definition get_xdsl_info :: "(pystr \<rightharpoonup> group) act" where
  "get_xdsl_info =
     bind reset_level (\<lambda>_.
     bind (send (str ''xdsl info'')) (\<lambda>out.
     lift (bind_err (parse_key_value (split_on 10 out) (str '':'')) xdsl_fields)))"

text \<open>
  The body of the loop of \<open>get_iflist_info\<close>. The right-hand side of the assignment is
  evaluated before the subscript \<open>tokens[2]\<close> of its target.
\<close>

definition iflist_line :: "(pystr \<rightharpoonup> iface) \<Rightarrow> pystr \<Rightarrow> error + (pystr \<rightharpoonup> iface)" where
  "iflist_line info line0 =
     (let line = join (str '' '') (split_ws (filter (\<lambda>c. c \<noteq> cp CHR ''.'') line0)) in
      if line \<noteq> [] then
        (let tokens = split_ws line in
         bind_err (index tokens 4) (\<lambda>t4.
         bind_err (py_int t4) (\<lambda>n4.
         bind_err (index tokens 5) (\<lambda>t5.
         bind_err (py_int t5) (\<lambda>n5.
         bind_err (index tokens 2) (\<lambda>t2.
         Inr (info(t2 \<mapsto> \<lparr>tx = n4, rx = n5\<rparr>))))))))
      else Inr info)"

fun iflist_lines :: "pystr list \<Rightarrow> (pystr \<rightharpoonup> iface) \<Rightarrow> error + (pystr \<rightharpoonup> iface)" where
  "iflist_lines [] info = Inr info"
| "iflist_lines (line # lines) info = bind_err (iflist_line info line) (iflist_lines lines)"

definition get_iflist_info :: "(pystr \<rightharpoonup> group) act" where
  "get_iflist_info =
     bind reset_level (\<lambda>_.
     bind (send (str ''ip iflist'')) (\<lambda>out.
     lift (bind_err (iflist_lines (drop 1 (split_on 10 out)) Map.empty) (\<lambda>info.
           Inr [str ''iflist'' \<mapsto> IfList info]))))"

definition get_all_info :: "(pystr \<rightharpoonup> group) act" where
  "get_all_info =
     bind get_xdsl_info (\<lambda>a.
     bind get_iflist_info (\<lambda>b.
     ret (merge_dicts [a, b])))"

section \<open>The polling cycle\<close>

text \<open>
  \<^verbatim>\<open>with globals()[args.router](args.host, args.port, args.timeout / 1000,
                              args.username, args.password) as router:
      print(json.dumps({'router': router.name(), 'timestamp': time.time(),
                        'data': router.get_all_info()}, ...))\<close>
  The constructor runs before the block is entered: when it raises, the statement has
  no context manager yet and \<open>__exit__\<close> is not called. Once the block is entered,
  \<open>__exit__\<close> runs when the block ends, normally or by an exception, and an exception
  raised by \<open>__exit__\<close> itself replaces the outcome. The result is the value printed
  (the router's name and the data; the timestamp is left out) and the transport as
  the program leaves it.
\<close>

definition name :: pystr where
  "name = str ''Thomson TG585 v8''"

definition main ::
  "transport \<Rightarrow> pystr option \<Rightarrow> pystr option \<Rightarrow> (error + pystr \<times> (pystr \<rightharpoonup> group)) \<times> transport" where
  "main t user pass =
     (case init t user pass of
        (Inl e, self) \<Rightarrow> (Inl e, conn self)
      | (Inr _, router) \<Rightarrow>
          (case get_all_info router of
             (r, router') \<Rightarrow>
               (case exit router' of
                  (Inl e, router'') \<Rightarrow> (Inl e, conn router'')
                | (Inr _, router'') \<Rightarrow>
                    (case r of
                       Inl e \<Rightarrow> (Inl e, conn router'')
                     | Inr d \<Rightarrow> (Inr (name, d), conn router'')))))"

section \<open>Notions of the specification\<close>

text \<open>
  A kept character, in the specification's words: its code point lies strictly between
  31 and 127, or it is the newline character (code point 10).
\<close>

definition printable_or_newline :: "nat \<Rightarrow> bool" where
  "printable_or_newline c \<longleftrightarrow> (31 < c \<and> c < 127) \<or> c = 10"

text \<open>
  The nesting depth after a prefix of a line: the number of opening parentheses minus
  the number of closing ones. Position \<open>p\<close> holds a separator at depth zero when the
  character there is the separator and the depth of the text before it is zero; it is
  the first one when no earlier position does.
\<close>

definition depth :: "pystr \<Rightarrow> int" where
  "depth p = int (count_list p (cp CHR ''('')) - int (count_list p (cp CHR '')''))"

definition sep_at_depth0 :: "nat \<Rightarrow> pystr \<Rightarrow> nat \<Rightarrow> bool" where
  "sep_at_depth0 c line p \<longleftrightarrow> p < length line \<and> line ! p = c \<and> depth (take p line) = 0"

definition first_sep :: "nat \<Rightarrow> pystr \<Rightarrow> nat \<Rightarrow> bool" where
  "first_sep c line p \<longleftrightarrow>
     sep_at_depth0 c line p \<and> list_all (\<lambda>q. \<not> sep_at_depth0 c line q) [0..<p]"

text \<open>The number that a text of decimal digits denotes, and the one that two digits denote.\<close>

definition decimal :: "pystr \<Rightarrow> int" where
  "decimal ds = foldl (\<lambda>a c. 10 * a + digit_val c) 0 ds"

definition two_digits :: "nat \<Rightarrow> nat \<Rightarrow> int" where
  "two_digits a b = 10 * digit_val a + digit_val b"

text \<open>A line has no separator at depth zero when no position of it holds one.\<close>

definition no_sep :: "nat \<Rightarrow> pystr \<Rightarrow> bool" where
  "no_sep c line \<longleftrightarrow> list_all (\<lambda>q. \<not> sep_at_depth0 c line q) [0..<length line]"

text \<open>The error that \<open>read\<close> raises itself, which the specification calls \<open>ProtocolError\<close>.\<close>

definition failed_read :: error where
  "failed_read = IOError (str ''Failed to read from telnet session.'')"

text \<open>
  A reply of the transport in which the expected text \<open>s\<close> is found: data that is valid
  UTF-8 and whose text ends with \<open>s\<close>. The handshake finds its three prompts when the
  first three replies hold them.
\<close>

definition found :: "pystr \<Rightarrow> reply \<Rightarrow> bool" where
  "found s r =
     (case r of
        Eof \<Rightarrow> False
      | Data d \<Rightarrow> (case decode_utf8 d of None \<Rightarrow> False | Some u \<Rightarrow> suffix s u))"

definition handshake_found :: "transport \<Rightarrow> pystr \<Rightarrow> bool" where
  "handshake_found t user \<longleftrightarrow>
     (case incoming t of
        r1 # r2 # r3 # rest \<Rightarrow>
          found (str ''Username : '') r1 \<and> found (str ''Password : '') r2 \<and>
          found (str ''{'' @ user @ str ''}=>'') r3
      | _ \<Rightarrow> False)"

text \<open>The keys that \<open>get_xdsl_info\<close> looks up, in the order in which it does.\<close>

definition required_keys :: "pystr list" where
  "required_keys = [uptime_key, bandwidth_key, state_key, type_key]"

text \<open>
  A method keeps the connection open when it never calls \<open>close\<close>, leaves the
  \<open>connected\<close> flag set once it is, and leaves a transport on which no write fails
  as one.
\<close>

definition keeps :: "'a act \<Rightarrow> bool" where
  "keeps m \<longleftrightarrow>
     (\<forall>self r self'. m self = (r, self') \<longrightarrow>
        closed (conn self') = closed (conn self) \<and> (connected self \<longrightarrow> connected self') \<and>
        (breaks (conn self) = [] \<longrightarrow> breaks (conn self') = []))"

text \<open>The bytes of the go-up command and of the logout command, as written to the transport.\<close>

definition go_up :: bytes where
  "go_up = ''..'' @ [CHR 0x0D, CHR 0x0A]"

definition logout :: bytes where
  "logout = ''exit'' @ [CHR 0x0D, CHR 0x0A]"

section \<open>Scenarios\<close>

text \<open>
  Concrete sessions and device scripts on which the theorems below are evaluated:
  an object before the handshake and one after it, the echo of a command followed by
  the prompt, a device that accepts the default login and one that rejects it, and
  three outputs of \<open>xdsl info\<close>: one whose uptime line has another label, one
  without the modem state, one whose uptime does not parse.
\<close>

definition fresh :: "reply list \<Rightarrow> session" where
  "fresh rs = \<lparr>conn = \<lparr>incoming = rs, breaks = [], outgoing = [], closed = 0\<rparr>,
               username = str ''Administrator'', password = [], connected = False\<rparr>"

definition logged_in :: "reply list \<Rightarrow> session" where
  "logged_in rs = \<lparr>conn = \<lparr>incoming = rs, breaks = [], outgoing = [], closed = 0\<rparr>,
                   username = str ''Administrator'', password = [], connected = True\<rparr>"

definition echo :: "bytes \<Rightarrow> reply" where
  "echo c = Data (''=>'' @ c @ [CHR 0x0D, CHR 0x0A])"

definition prompt :: reply where
  "prompt = Data ''{Administrator}''"

definition go_up_replies :: "reply list" where
  "go_up_replies =
     [echo ''..'', prompt, echo ''..'', prompt, echo ''..'', prompt, echo ''..'', prompt]"

definition login_replies :: "reply list" where
  "login_replies = [Data ''Username : '', Data ''Password : '', Data ''{Administrator}=>'']"

definition rejected_login :: "reply list" where
  "rejected_login = [Data ''Username : '', Data ''Password : '',
                     Data (''Invalid username/password'' @ [CHR 0x0D, CHR 0x0A])]"

definition banner :: bytes where
  "banner = ''Welcome'' @ [CHR 0x0D, CHR 0x0A]"

definition xdsl_relabelled :: bytes where
  "xdsl_relabelled =
     ''Modem state: up'' @ [CHR 0x0D, CHR 0x0A] @
     ''Uptime: 1, 00:00:00'' @ [CHR 0x0D, CHR 0x0A]"

definition xdsl_no_state :: bytes where
  "xdsl_no_state =
     ''Up time (Days hh:mm:ss): 1, 00:00:00'' @ [CHR 0x0D, CHR 0x0A] @
     ''Bandwidth (Down/Up - kbit/s): 8000/800'' @ [CHR 0x0D, CHR 0x0A] @
     ''xDSL Type: VDSL2'' @ [CHR 0x0D, CHR 0x0A]"

definition xdsl_garbled :: bytes where
  "xdsl_garbled = ''Up time (Days hh:mm:ss): soon'' @ [CHR 0x0D, CHR 0x0A]"

definition xdsl_script :: "bytes \<Rightarrow> reply list" where
  "xdsl_script output =
     go_up_replies @ [echo ''xdsl info'', Data (output @ ''{Administrator}'')]"

section \<open>Properties of the utility functions\<close>

subsection \<open>The characters that sanitize keeps\<close>

lemma sanitize_filter: "sanitize s = filter printable_or_newline s"
  by (induction s) (simp_all add: printable_or_newline_def)

text \<open>
  C9. For every text, \<open>sanitize\<close> returns exactly the subsequence of the characters
  whose code point lies strictly between 31 and 127 or that are newlines: the other
  characters are dropped and the kept ones stay in their order. Consequently a text
  made only of such characters is returned unchanged.
\<close>

theorem sanitize_keeps_printable_and_newline:
  "sanitize s = filter printable_or_newline s \<and>
   subseq (sanitize s) s \<and>
   (list_all printable_or_newline s \<longrightarrow> sanitize s = s)"
proof (intro conjI impI)
  show "sanitize s = filter printable_or_newline s"
    by (rule sanitize_filter)
  show "subseq (sanitize s) s"
    by (simp add: sanitize_filter)
  assume "list_all printable_or_newline s"
  then show "sanitize s = s"
    by (simp add: sanitize_filter list_all_iff)
qed

theorem sanitize_keeps_printable_and_newline_witness:
  "list_all printable_or_newline (str ''Modem state: up'' @ [10]) \<and>
   sanitize (str ''Modem state: up'' @ [10]) = str ''Modem state: up'' @ [10] \<and>
   sanitize (27 # str ''[1mup'' @ [13, 10, 127, 233]) = str ''[1mup'' @ [10]"
proof -
  have clean: "list_all printable_or_newline (str ''Modem state: up'' @ [10])"
    by (simp add: printable_or_newline_def)
  have "sanitize (str ''Modem state: up'' @ [10]) = str ''Modem state: up'' @ [10]"
    using sanitize_keeps_printable_and_newline [of "str ''Modem state: up'' @ [10]"] clean
    by blast
  moreover have "sanitize (27 # str ''[1mup'' @ [13, 10, 127, 233]) = str ''[1mup'' @ [10]"
    using sanitize_keeps_printable_and_newline [of "27 # str ''[1mup'' @ [13, 10, 127, 233]"]
    by (simp add: printable_or_newline_def)
  ultimately show ?thesis
    using clean by blast
qed

subsection \<open>Lines without a separator, and empty lines\<close>

text \<open>
  C1. A line with no separator at nesting depth zero should yield no entry. The loop
  ends with \<open>i\<close> at the last index, and the slices are taken there: the line
  \<open>noseparatorhere\<close> yields the entry \<open>noseparatorher\<close> with an empty value.
\<close>

theorem parse_key_value_no_separator_emits_entry:
  "parse_key_value [str ''noseparatorhere''] (str '':'') =
     Inr [str ''noseparatorher'' \<mapsto> []]"
  by (simp add: parse_key_value_def strip_def is_space_def)

text \<open>
  C4. \<open>parse_key_value\<close> should return a mapping for every list of lines. When the
  first line is empty the loop variable \<open>i\<close> is never bound, and the slice
  \<open>line[:i]\<close> raises \<open>UnboundLocalError\<close>.
\<close>

theorem parse_key_value_empty_first_line_raises:
  "parse_key_value [[]] (str '':'') = Inl UnboundLocalError"
  by (simp add: parse_key_value_def)

subsection \<open>Lines with a separator at depth zero\<close>

lemma depth_Nil: "depth [] = 0"
  by (simp add: depth_def)

lemma depth_Cons:
  "depth (x # xs) =
     (if x = cp CHR ''('' then 1 else if x = cp CHR '')'' then - 1 else 0) + depth xs"
  by (simp add: depth_def)

text \<open>
  The loop invariant: \<open>level\<close> is the depth of the text already scanned, so the loop
  stops at the first position of the rest where the separator stands at depth zero.
\<close>

lemma scan_stops_at_first:
  assumes "c \<noteq> cp CHR ''(''" and "c \<noteq> cp CHR '')''"
    and "p < length cs" and "cs ! p = c" and "level + depth (take p cs) = 0"
    and "\<And>q. q < p \<Longrightarrow> \<not> (cs ! q = c \<and> level + depth (take q cs) = 0)"
  shows "scan [c] cs n level pos i = (int (n + p), Some (n + p))"
  using assms(3-)
proof (induction cs arbitrary: p n level i)
  case Nil
  then show ?case by simp
next
  case (Cons x cs)
  show ?case
  proof (cases p)
    case 0
    with Cons.prems assms(1,2) show ?thesis
      by (simp add: depth_Nil)
  next
    case (Suc k)
    have head: "\<not> (x = c \<and> level = 0)"
      using Cons.prems(4) [of 0] Suc by (simp add: depth_Nil)
    define level' where
      "level' = level + (if x = cp CHR ''('' then 1 else if x = cp CHR '')'' then - 1 else 0)"
    have k: "k < length cs" "cs ! k = c" "level' + depth (take k cs) = 0"
      using Cons.prems(1-3) Suc by (simp_all add: depth_Cons level'_def)
    have before: "\<not> (cs ! q = c \<and> level' + depth (take q cs) = 0)" if "q < k" for q
      using Cons.prems(4) [of "Suc q"] that Suc
      by (auto simp: depth_Cons level'_def split: if_splits)
    have IH: "scan [c] cs (Suc n) level' pos (Some n) = (int (Suc n + k), Some (Suc n + k))"
      using Cons.IH [OF k before] by blast
    show ?thesis
      using IH head Suc by (auto simp: level'_def)
  qed
qed

lemma first_sepD:
  assumes "first_sep c line p"
  shows "p < length line" "line ! p = c" "depth (take p line) = 0"
    "\<And>q. q < p \<Longrightarrow> \<not> (line ! q = c \<and> depth (take q line) = 0)"
  using assms by (auto simp: first_sep_def sep_at_depth0_def list_all_iff)

lemma scan_first_sep:
  assumes "c \<noteq> cp CHR ''(''" and "c \<noteq> cp CHR '')''" and "first_sep c line p"
  shows "scan [c] line 0 0 pos i = (int p, Some p)"
  using scan_stops_at_first [OF assms(1,2), of p line 0 0 pos i] first_sepD [OF assms(3)]
  by simp

text \<open>
  C2. For a line that has a separator at nesting depth zero (the separator being a
  character other than the parentheses, as the default \<open>:\<close> is), the line is split at
  the first such separator, whatever stands inside parentheses: the key is the
  stripped text before it, the value the stripped text after it, and no entry is
  made when the stripped key is empty. This holds for the line wherever it stands in
  the list (first conjunct) and gives the result for a list of one line (second).
\<close>

theorem parse_key_value_splits_at_first_separator:
  assumes "c \<noteq> cp CHR ''(''" and "c \<noteq> cp CHR '')''" and "first_sep c line p"
  shows "parse_lines [c] (line # rest) kv i =
           parse_lines [c] rest
             (if strip (take p line) = [] then kv
              else kv(strip (take p line) \<mapsto> strip (drop (Suc p) line))) (Some p) \<and>
         parse_key_value [line] [c] =
           Inr (if strip (take p line) = [] then Map.empty
                else [strip (take p line) \<mapsto> strip (drop (Suc p) line)])"
  using scan_first_sep [OF assms] by (simp add: parse_key_value_def Let_def)

theorem parse_key_value_splits_at_first_separator_witness:
  "first_sep (cp CHR '':'') (str ''a(b:c):d'') 6 \<and>
   parse_key_value [str ''a(b:c):d''] (str '':'') = Inr [str ''a(b:c)'' \<mapsto> str ''d''] \<and>
   first_sep (cp CHR '':'') (str ''  key  :  value  '') 7 \<and>
   parse_key_value [str ''  key  :  value  ''] (str '':'') = Inr [str ''key'' \<mapsto> str ''value''] \<and>
   first_sep (cp CHR '':'') (str '':value'') 0 \<and>
   parse_key_value [str '':value''] (str '':'') = Inr Map.empty"
proof -
  have a: "first_sep (cp CHR '':'') (str ''a(b:c):d'') 6"
    by (simp add: first_sep_def sep_at_depth0_def depth_def upt_conv_Cons)
  have b: "first_sep (cp CHR '':'') (str ''  key  :  value  '') 7"
    by (simp add: first_sep_def sep_at_depth0_def depth_def upt_conv_Cons)
  have c: "first_sep (cp CHR '':'') (str '':value'') 0"
    by (simp add: first_sep_def sep_at_depth0_def depth_def)
  have "parse_key_value [str ''a(b:c):d''] (str '':'') = Inr [str ''a(b:c)'' \<mapsto> str ''d'']"
    using parse_key_value_splits_at_first_separator [OF _ _ a]
    by (simp add: strip_def is_space_def)
  moreover have "parse_key_value [str ''  key  :  value  ''] (str '':'') =
      Inr [str ''key'' \<mapsto> str ''value'']"
    using parse_key_value_splits_at_first_separator [OF _ _ b]
    by (simp add: strip_def is_space_def)
  moreover have "parse_key_value [str '':value''] (str '':'') = Inr Map.empty"
    using parse_key_value_splits_at_first_separator [OF _ _ c]
    by (simp add: strip_def is_space_def)
  ultimately show ?thesis
    using a b c by blast
qed

subsection \<open>What a line without a separator yields\<close>

lemma scan_runs_to_end:
  assumes "cs \<noteq> []"
    and "\<And>q. q < length cs \<Longrightarrow> \<not> (cs ! q = c \<and> level + depth (take q cs) = 0)"
  shows "scan [c] cs n level pos i = (pos, Some (n + length cs - 1))"
  using assms
proof (induction cs arbitrary: n level i)
  case Nil
  then show ?case by simp
next
  case (Cons x cs)
  have head: "\<not> (x = c \<and> level = 0)"
    using Cons.prems(2) [of 0] by (simp add: depth_Nil)
  define level' where
    "level' = level + (if x = cp CHR ''('' then 1 else if x = cp CHR '')'' then - 1 else 0)"
  have rest: "\<not> (cs ! q = c \<and> level' + depth (take q cs) = 0)" if "q < length cs" for q
    using Cons.prems(2) [of "Suc q"] that
    by (auto simp: depth_Cons level'_def split: if_splits)
  show ?case
  proof (cases "cs = []")
    case True
    then show ?thesis
      using head by auto
  next
    case False
    have "scan [c] cs (Suc n) level' pos (Some n) = (pos, Some (Suc n + length cs - 1))"
      using Cons.IH [OF False rest] by blast
    then show ?thesis
      using head False by (auto simp: level'_def)
  qed
qed

text \<open>
  A non-empty line with no separator at depth zero is cut before its last character:
  the key is the stripped line without that character, the value is empty, and the
  entry is made unless that key is empty. This is the general form of the behaviour
  that C1 meets at \<open>noseparatorhere\<close>.
\<close>

theorem parse_key_value_line_without_separator:
  assumes "line \<noteq> []" and "no_sep c line"
  shows "parse_lines [c] (line # rest) kv i =
           parse_lines [c] rest
             (if strip (butlast line) = [] then kv else kv(strip (butlast line) \<mapsto> []))
             (Some (length line - 1))"
proof -
  have "\<not> (line ! q = c \<and> 0 + depth (take q line) = 0)" if "q < length line" for q
    using assms(2) that by (auto simp: no_sep_def sep_at_depth0_def list_all_iff)
  from scan_runs_to_end [OF assms(1) this, of 0 "- 1" i]
  have "scan [c] line 0 0 (- 1) i = (- 1, Some (length line - 1))"
    by simp
  moreover have "take (length line - 1) line = butlast line"
    by (simp add: butlast_conv_take)
  moreover have "drop (Suc (length line - 1)) line = []"
    using assms(1) by simp
  ultimately show ?thesis
    by (simp add: Let_def strip_def)
qed

theorem parse_key_value_line_without_separator_witness:
  "no_sep (cp CHR '':'') (str ''a(b:c)'') \<and>
   parse_lines (str '':'') [str ''a(b:c)''] Map.empty None = Inr [str ''a(b:c'' \<mapsto> []]"
proof -
  have n: "no_sep (cp CHR '':'') (str ''a(b:c)'')"
    by (simp add: no_sep_def sep_at_depth0_def depth_def upt_conv_Cons)
  have "parse_lines (str '':'') [str ''a(b:c)''] Map.empty None = Inr [str ''a(b:c'' \<mapsto> []]"
    using parse_key_value_line_without_separator [OF _ n, of "[]" Map.empty None]
    by (simp add: strip_def is_space_def)
  with n show ?thesis by blast
qed

section \<open>Properties of the field extraction\<close>

lemma split_on_absent: "c \<notin> set b \<Longrightarrow> split_on c b = [b]"
  by (induction b) auto

lemma split_on_append: "c \<notin> set a \<Longrightarrow> split_on c (a @ c # b) = a # split_on c b"
  by (induction a) auto

lemma strip_no_space:
  assumes "s \<noteq> []" and "\<not> is_space (hd s)" and "\<not> is_space (last s)"
  shows "strip s = s"
proof -
  have "dropWhile is_space s = s"
    using assms(1,2) by (cases s) simp_all
  moreover have "dropWhile is_space (rev s) = rev s"
    using assms(1,3) by (cases "rev s") (simp_all add: last_rev [symmetric] del: last_rev)
  ultimately show ?thesis
    by (simp add: strip_def)
qed

lemma is_digit_not_space: "is_digit c \<Longrightarrow> \<not> is_space c"
  by (auto simp: is_digit_def is_space_def)

lemma strip_digits:
  assumes "d \<noteq> []" and "list_all is_digit d"
  shows "strip d = d"
proof (rule strip_no_space)
  show "d \<noteq> []" by fact
  have "is_digit (hd d)" "is_digit (last d)"
    using assms by (auto simp: list_all_iff)
  then show "\<not> is_space (hd d)" "\<not> is_space (last d)"
    by (simp_all add: is_digit_not_space)
qed

lemma int_digits_all:
  "list_all is_digit ds \<Longrightarrow> ds \<noteq> [] \<or> b \<Longrightarrow>
     int_digits ds b acc = Some (foldl (\<lambda>a c. 10 * a + digit_val c) acc ds)"
  by (induction ds arbitrary: b acc) auto

lemma py_int_digits:
  assumes "d \<noteq> []" and "list_all is_digit d"
  shows "py_int d = Inr (decimal d)"
proof -
  obtain c r where d: "d = c # r"
    using assms(1) by (cases d) auto
  have "is_digit c"
    using assms(2) d by simp
  then have sign: "c \<noteq> cp CHR ''-''" "c \<noteq> cp CHR ''+''"
    by (auto simp: is_digit_def)
  have "int_digits (c # r) False 0 = Some (decimal d)"
    using int_digits_all [of d False 0] assms d by (simp add: decimal_def)
  then show ?thesis
    using sign strip_digits [OF assms] d by (simp add: py_int_def)
qed

text \<open>A multiple of 1000 is a multiple of 8: flooring and truncating give the same.\<close>

lemma exact_eighth: "(1000 * n) div 8 = (1000 * n) sdiv (8::int)"
  by (auto simp: signed_divide_int_def sgn_if)

text \<open>
  C7. The bandwidth text \<open>down/up\<close> is split at the slash; each side, read as an integer
  (kilobits per second), is multiplied by 1000 and divided by 8, and the truncating
  quotient is the result (bytes per second). The program divides with \<open>//\<close>, which
  floors; the two agree here. For \<open>8000/800\<close> the result is 1000000 and 100000.
\<close>

theorem xdsl_bandwidth_bytes_per_second:
  assumes "cp CHR ''/'' \<notin> set a" and "cp CHR ''/'' \<notin> set b"
    and "py_int a = Inr down" and "py_int b = Inr up"
  shows "xdsl_bandwidth (a @ cp CHR ''/'' # b) =
           Inr ((1000 * down) sdiv 8, (1000 * up) sdiv 8)"
proof -
  have pieces: "split_on (cp CHR ''/'') (a @ cp CHR ''/'' # b) = [a, b]"
    using assms(1,2) by (simp add: split_on_append split_on_absent)
  show ?thesis
    unfolding xdsl_bandwidth_def pieces
    using assms(3,4) by (simp add: index_def bind_err_def exact_eighth)
qed

theorem xdsl_bandwidth_bytes_per_second_witness:
  "py_int (str ''8000'') = Inr 8000 \<and> py_int (str ''800'') = Inr 800 \<and>
   xdsl_bandwidth (str ''8000/800'') = Inr (1000000, 100000)"
proof -
  have a: "py_int (str ''8000'') = Inr 8000" and b: "py_int (str ''800'') = Inr 800"
    by (simp_all add: py_int_def strip_def is_space_def is_digit_def digit_val_def)
  have "xdsl_bandwidth (str ''8000/800'') = Inr (1000000, 100000)"
    using xdsl_bandwidth_bytes_per_second [of "str ''8000''" "str ''800''" 8000 800] a b
    by (simp add: signed_divide_int_def)
  then show ?thesis
    using a b by blast
qed

lemma field_two:
  "is_digit a \<Longrightarrow> is_digit b \<Longrightarrow> two_digits a b \<le> hi \<Longrightarrow>
     field hi (a # b # r) = Some (two_digits a b, r)"
  by (simp add: two_digits_def)

lemma strptime_two_digit_fields:
  assumes "is_digit h1" "is_digit h2" "is_digit m1" "is_digit m2" "is_digit s1" "is_digit s2"
    and "two_digits h1 h2 \<le> 23" "two_digits m1 m2 \<le> 59" "two_digits s1 s2 \<le> 59"
  shows "strptime_HMS [h1, h2, cp CHR '':'', m1, m2, cp CHR '':'', s1, s2] =
           Inr (two_digits h1 h2, two_digits m1 m2, two_digits s1 s2)"
  using assms by (simp add: strptime_HMS_def field_two del: field.simps)

text \<open>
  C8. The uptime text \<open>days, hh:mm:ss\<close> (the days in decimal digits, then a comma and a
  space, then hours up to 23, minutes and seconds up to 59, two digits each) gives
  the total number of seconds, days * 86400 + hours * 3600 + minutes * 60 + seconds.
  For \<open>5, 03:20:10\<close> that is 444010.
\<close>

theorem xdsl_uptime_total_seconds:
  assumes "d \<noteq> []" and "list_all is_digit d"
    and "is_digit h1" "is_digit h2" "is_digit m1" "is_digit m2" "is_digit s1" "is_digit s2"
    and "two_digits h1 h2 \<le> 23" "two_digits m1 m2 \<le> 59" "two_digits s1 s2 \<le> 59"
  shows "xdsl_uptime (d @ str '', '' @ [h1, h2, cp CHR '':'', m1, m2, cp CHR '':'', s1, s2]) =
           Inr (decimal d * 86400 + two_digits h1 h2 * 3600 + two_digits m1 m2 * 60 +
                two_digits s1 s2)"
proof -
  let ?hms = "[h1, h2, cp CHR '':'', m1, m2, cp CHR '':'', s1, s2]"
  have nocomma: "cp CHR '','' \<notin> set d" "cp CHR '' '' \<notin> set d"
    using assms(2) by (auto simp: list_all_iff is_digit_def)
  have "cp CHR '','' \<notin> set (cp CHR '' '' # ?hms)"
    using assms(3-8) by (auto simp: is_digit_def)
  then have pieces:
    "split_on (cp CHR '','') (d @ str '', '' @ ?hms) = [d, cp CHR '' '' # ?hms]"
    using nocomma(1) split_on_append [of "cp CHR '',''" d "cp CHR '' '' # ?hms"]
    by (simp add: split_on_absent del: split_on.simps)
  have hms: "strip (cp CHR '' '' # ?hms) = ?hms"
  proof -
    have "strip ?hms = ?hms"
      using assms(3,8) by (intro strip_no_space) (simp_all add: is_digit_not_space)
    then show ?thesis
      by (simp add: strip_def is_space_def)
  qed
  have days: "py_int d = Inr (decimal d)"
    by (rule py_int_digits) fact+
  show ?thesis
    unfolding xdsl_uptime_def pieces
    using days hms strptime_two_digit_fields [OF assms(3-)] strip_digits [OF assms(1,2)]
      split_on_absent [OF nocomma(2)]
    by (simp add: index_def bind_err_def)
qed

theorem xdsl_uptime_total_seconds_witness:
  "list_all is_digit (str ''5'') \<and> two_digits (cp CHR ''0'') (cp CHR ''3'') = 3 \<and>
   two_digits (cp CHR ''2'') (cp CHR ''0'') = 20 \<and> two_digits (cp CHR ''1'') (cp CHR ''0'') = 10 \<and>
   xdsl_uptime (str ''5, 03:20:10'') = Inr 444010 \<and>
   (444010::int) = 5 * 86400 + 3 * 3600 + 20 * 60 + 10"
  using xdsl_uptime_total_seconds [of "str ''5''" "cp CHR ''0''" "cp CHR ''3''" "cp CHR ''2''"
      "cp CHR ''0''" "cp CHR ''1''" "cp CHR ''0''"]
  by (simp add: is_digit_def two_digits_def digit_val_def decimal_def)

section \<open>Properties of the session\<close>

subsection \<open>Reading up to a terminator\<close>

lemma endswith_iff_suffix: "endswith u s \<longleftrightarrow> suffix s u"
proof
  assume "endswith u s"
  then have "u = take (length u - length s) u @ s"
    by (metis append_take_drop_id endswith_def)
  then show "suffix s u"
    by (metis suffixI)
next
  assume "suffix s u"
  then obtain pre where "u = pre @ s"
    by (auto simp: suffix_def)
  then show "endswith u s"
    by (simp add: endswith_def)
qed

lemma read_data:
  assumes "s \<noteq> []" and "encode_utf8 s = Some e"
    and "read_until (conn self) = (Data d, t)" and "decode_utf8 d = Some u"
  shows "(if suffix s u
          then read s self = (Inr (sanitize (take (length u - length s) u)), self\<lparr>conn := t\<rparr>)
          else read s self = (Inl failed_read, self\<lparr>conn := t\<rparr>))"
  using assms by (simp add: read_def endswith_iff_suffix drop_last_def failed_read_def)

lemma read_until_cases:
  assumes "read_until t = (r, t')"
  shows "(incoming t = r # incoming t' \<and> outgoing t' = outgoing t \<and> closed t' = closed t) \<or>
         (incoming t = [] \<and> r = Data [] \<and> t' = t)"
  using assms by (auto simp: read_until_def split: list.splits)

lemma not_found_silence: "s \<noteq> [] \<Longrightarrow> \<not> found s (Data [])"
  by (simp add: found_def)

lemma read_Inr:
  assumes "read s self = (Inr x, self')" and "s \<noteq> []"
  shows "\<exists>r. incoming (conn self) = r # incoming (conn self') \<and> found s r \<and>
             outgoing (conn self') = outgoing (conn self) \<and>
             closed (conn self') = closed (conn self) \<and>
             username self' = username self \<and> password self' = password self \<and>
             connected self' = connected self"
proof -
  from assms(1) obtain e d t u where
    e: "encode_utf8 s = Some e" and r: "read_until (conn self) = (Data d, t)"
    and u: "decode_utf8 d = Some u" and ends: "endswith u s"
    and self': "self' = self\<lparr>conn := t\<rparr>"
    by (auto simp: read_def split: option.splits reply.splits prod.splits if_splits)
  have f: "found s (Data d)"
    using u ends by (simp add: found_def endswith_iff_suffix)
  with read_until_cases [OF r] not_found_silence [OF assms(2)] self'
  show ?thesis by auto
qed

lemma read_frame:
  assumes "read s self = (r, self')"
  shows "outgoing (conn self') = outgoing (conn self) \<and>
         closed (conn self') = closed (conn self) \<and>
         breaks (conn self') = breaks (conn self) \<and>
         connected self' = connected self \<and> username self' = username self"
  using assms
  by (auto simp: read_def read_until_def
      split: option.splits reply.splits prod.splits if_splits list.splits)

text \<open>
  A write appends its buffer to what has been written, or raises \<open>BrokenPipeError\<close>
  and appends nothing; it touches neither the script of the reads nor the object.
\<close>

lemma write_str_frame:
  assumes "write_str s self = (r, self')"
  shows "incoming (conn self') = incoming (conn self) \<and>
         closed (conn self') = closed (conn self) \<and>
         (breaks (conn self) = [] \<longrightarrow> breaks (conn self') = []) \<and>
         username self' = username self \<and> password self' = password self \<and>
         connected self' = connected self"
  using assms
  by (auto simp: write_str_def conn_write_def split: option.splits list.splits if_splits)


lemma write_str_unbroken:
  assumes "encode_utf8 s = Some b" and "breaks (conn self) = []"
  shows "write_str s self =
           (Inr (), self\<lparr>conn := (conn self)\<lparr>outgoing := outgoing (conn self) @ [b]\<rparr>\<rparr>)"
  using assms by (simp add: write_str_def conn_write_def)

lemma bind_Inr:
  "bind m f self = (Inr y, self'') \<longleftrightarrow>
     (\<exists>x self'. m self = (Inr x, self') \<and> f x self' = (Inr y, self''))"
  by (auto simp: bind_def split: prod.splits sum.splits)

subsection \<open>The handshake\<close>

lemma init_Inr:
  assumes "init t user pass = (Inr x, self)"
  shows "handshake_found t (username self)"
proof -
  define self0 where "self0 = \<lparr>conn = t,
      username = (case user of None \<Rightarrow> str ''Administrator''
                  | Some u \<Rightarrow> if u = [] then str ''Administrator'' else u),
      password = (case pass of None \<Rightarrow> [] | Some p \<Rightarrow> p), connected = False\<rparr>"
  from assms obtain s1 s2 s3 s4 s5 x1 x2 x3 x4 x6 where
    1: "read (str ''Username : '') self0 = (Inr x1, s1)" and
    2: "write_str (username self0 @ crlf) s1 = (Inr x2, s2)" and
    3: "read (str ''Password : '') s2 = (Inr x3, s3)" and
    4: "write_str (password self0 @ crlf) s3 = (Inr x4, s4)" and
    5: "s5 = s4\<lparr>connected := True\<rparr>" and
    6: "read (str ''{'' @ username self0 @ str ''}=>'') s5 = (Inr x6, self)"
    unfolding init_def Let_def self0_def [symmetric] bind_Inr ret_def by auto
  from read_Inr [OF 1] obtain r1 where
    r1: "incoming t = r1 # incoming (conn s1)" "found (str ''Username : '') r1"
      "username s1 = username self0"
    by (auto simp: self0_def)
  from write_str_frame [OF 2]
  have s2: "incoming (conn s2) = incoming (conn s1)" "username s2 = username s1"
    by auto
  from read_Inr [OF 3] obtain r2 where
    r2: "incoming (conn s2) = r2 # incoming (conn s3)" "found (str ''Password : '') r2"
      "username s3 = username s2"
    by auto
  from write_str_frame [OF 4]
  have s4: "incoming (conn s4) = incoming (conn s3)" "username s4 = username s3"
    by auto
  from read_Inr [OF 6] obtain r3 where
    r3: "incoming (conn s5) = r3 # incoming (conn self)"
      "found (str ''{'' @ username self0 @ str ''}=>'') r3" "username self = username s5"
    by auto
  have user: "username self = username self0"
    using r1 s2 r2 s4 r3 5 by simp
  have "incoming t = r1 # r2 # r3 # incoming (conn self)"
    using r1(1) s2(1) r2(1) s4(1) r3(1) 5 by simp
  then show ?thesis
    using r1(2) r2(2) r3(2) user by (simp add: handshake_found_def)
qed

lemmas run =
  bind_def ret_def lift_def read_def write_str_def send_def read_until_def conn_write_def
  conn_close_def crlf_def endswith_def drop_last_def encode_cp_def fresh_def logged_in_def
  echo_def prompt_def go_up_replies_def xdsl_script_def

lemma init_accepted:
  "init \<lparr>incoming = login_replies, breaks = [], outgoing = [], closed = 0\<rparr> None None =
     (Inr (), \<lparr>conn = \<lparr>incoming = [], breaks = [],
                       outgoing = [''Administrator'' @ [CHR 0x0D, CHR 0x0A], [CHR 0x0D, CHR 0x0A]],
                       closed = 0\<rparr>,
               username = str ''Administrator'', password = [], connected = True\<rparr>)"
  by (simp add: init_def run login_replies_def char_of_eq_iff)

lemma read_invalid_utf8:
  assumes "encode_utf8 s = Some e" and "read_until (conn self) = (Data d, t)"
    and "decode_utf8 d = None"
  shows "read s self = (Inl UnicodeDecodeError, self\<lparr>conn := t\<rparr>)"
  using assms by (simp add: read_def)

text \<open>
  What the code does when the stream is closed and nothing is buffered: the
  transport's \<open>EOFError\<close> leaves \<open>read\<close> unchanged.
\<close>

lemma read_eof:
  assumes "encode_utf8 s = Some e" and "read_until (conn self) = (Eof, t)"
  shows "read s self = (Inl EOFError, self\<lparr>conn := t\<rparr>)"
  using assms by (simp add: read_def)

text \<open>
  C5, as amended. For a terminator that is not empty and that UTF-8 can encode, when
  the transport returns data: if the data is not valid UTF-8, \<open>read\<close> raises
  \<open>UnicodeDecodeError\<close>; if it is valid UTF-8, \<open>read\<close> raises its \<open>IOError\<close> exactly
  when the decoded data does not end with the terminator, and otherwise returns the
  sanitized text that precedes the terminator. The constructor returns a session only
  when each of its three reads has found its prompt, so a handshake read that fails
  leaves no session.
\<close>

theorem read_finds_terminator_or_raises:
  "(s \<noteq> [] \<and> encode_utf8 s = Some e \<and> read_until (conn self) = (Data d, t) \<longrightarrow>
      (decode_utf8 d = None \<longrightarrow> read s self = (Inl UnicodeDecodeError, self\<lparr>conn := t\<rparr>)) \<and>
      (decode_utf8 d = Some u \<longrightarrow>
         ((\<exists>m. fst (read s self) = Inl (IOError m)) \<longleftrightarrow> \<not> suffix s u) \<and>
         (\<not> suffix s u \<longrightarrow> read s self = (Inl failed_read, self\<lparr>conn := t\<rparr>)) \<and>
         (\<forall>pre. u = pre @ s \<longrightarrow> read s self = (Inr (sanitize pre), self\<lparr>conn := t\<rparr>)))) \<and>
   (init t0 user pass = (Inr x, opened) \<longrightarrow> handshake_found t0 (username opened))"
proof (intro conjI impI allI)
  assume a: "s \<noteq> [] \<and> encode_utf8 s = Some e \<and> read_until (conn self) = (Data d, t)"
  show "read s self = (Inl UnicodeDecodeError, self\<lparr>conn := t\<rparr>)" if "decode_utf8 d = None"
    using a that read_invalid_utf8 [of s e self d t] by blast
  assume u: "decode_utf8 d = Some u"
  have r: "(if suffix s u
          then read s self = (Inr (sanitize (take (length u - length s) u)), self\<lparr>conn := t\<rparr>)
          else read s self = (Inl failed_read, self\<lparr>conn := t\<rparr>))"
    using a u read_data [of s e self d t u] by blast
  show "(\<exists>m. fst (read s self) = Inl (IOError m)) \<longleftrightarrow> \<not> suffix s u"
    using r by (auto simp: failed_read_def split: if_splits)
  show "read s self = (Inl failed_read, self\<lparr>conn := t\<rparr>)" if "\<not> suffix s u"
    using r that by simp
  show "read s self = (Inr (sanitize pre), self\<lparr>conn := t\<rparr>)" if "u = pre @ s" for pre
    using r that by (auto simp: suffix_def)
next
  assume "init t0 user pass = (Inr x, opened)"
  then show "handshake_found t0 (username opened)"
    by (rule init_Inr)
qed

theorem read_finds_terminator_or_raises_witness:
  "read (str ''Username : '') (fresh [Data (banner @ ''Username : '')]) =
     (Inr (str ''Welcome'' @ [10]), fresh []) \<and>
   read (str ''Username : '') (fresh [Data banner]) = (Inl failed_read, fresh []) \<and>
   read (str ''Username : '') (fresh [Data [CHR 0xC3]]) = (Inl UnicodeDecodeError, fresh []) \<and>
   handshake_found \<lparr>incoming = login_replies, breaks = [], outgoing = [], closed = 0\<rparr>
     (str ''Administrator'')"
proof -
  have e: "encode_utf8 (str ''Username : '') = Some ''Username : ''"
    by (simp add: encode_cp_def char_of_eq_iff)
  have r1: "read_until (conn (fresh [Data (banner @ ''Username : '')])) =
      (Data (banner @ ''Username : ''),
       \<lparr>incoming = [], breaks = [], outgoing = [], closed = 0\<rparr>)"
    by (simp add: read_until_def fresh_def)
  have d1: "decode_utf8 (banner @ ''Username : '') =
      Some (str ''Welcome'' @ [13, 10] @ str ''Username : '')"
    by (simp add: banner_def)
  have r2: "read_until (conn (fresh [Data banner])) =
      (Data banner, \<lparr>incoming = [], breaks = [], outgoing = [], closed = 0\<rparr>)"
    by (simp add: read_until_def fresh_def)
  have d2: "decode_utf8 banner = Some (str ''Welcome'' @ [13, 10])"
    by (simp add: banner_def)
  have n2: "\<not> suffix (str ''Username : '') (str ''Welcome'' @ [13, 10])"
    by (simp add: endswith_iff_suffix [symmetric] endswith_def)
  have r3: "read_until (conn (fresh [Data [CHR 0xC3]])) =
      (Data [CHR 0xC3], \<lparr>incoming = [], breaks = [], outgoing = [], closed = 0\<rparr>)"
    by (simp add: read_until_def fresh_def)
  have d3: "decode_utf8 [CHR 0xC3] = None"
    by simp
  have "read (str ''Username : '') (fresh [Data (banner @ ''Username : '')]) =
      (Inr (str ''Welcome'' @ [10]), fresh [])"
    using read_finds_terminator_or_raises [of "str ''Username : ''" "''Username : ''"
        "fresh [Data (banner @ ''Username : '')]" "banner @ ''Username : ''"
        "\<lparr>incoming = [], breaks = [], outgoing = [], closed = 0\<rparr>"
        "str ''Welcome'' @ [13, 10] @ str ''Username : ''"] e r1 d1
    by (simp add: fresh_def)
  moreover have "read (str ''Username : '') (fresh [Data banner]) = (Inl failed_read, fresh [])"
    using read_finds_terminator_or_raises [of "str ''Username : ''" "''Username : ''"
        "fresh [Data banner]" banner
        "\<lparr>incoming = [], breaks = [], outgoing = [], closed = 0\<rparr>"
        "str ''Welcome'' @ [13, 10]"] e r2 d2 n2
    by (simp add: fresh_def)
  moreover have "read (str ''Username : '') (fresh [Data [CHR 0xC3]]) =
      (Inl UnicodeDecodeError, fresh [])"
    using read_finds_terminator_or_raises [of "str ''Username : ''" "''Username : ''"
        "fresh [Data [CHR 0xC3]]" "[CHR 0xC3]"
        "\<lparr>incoming = [], breaks = [], outgoing = [], closed = 0\<rparr>"] e r3 d3
    by (simp add: fresh_def)
  moreover have "handshake_found
      \<lparr>incoming = login_replies, breaks = [], outgoing = [], closed = 0\<rparr> (str ''Administrator'')"
    using read_finds_terminator_or_raises [THEN conjunct2, THEN mp, OF init_accepted] by simp
  ultimately show ?thesis by blast
qed

text \<open>
  C5 as stated fails: data that ends with the terminator but is not valid UTF-8 makes
  \<open>read\<close> raise \<open>UnicodeDecodeError\<close> instead of returning the text before the
  terminator, and the error is not the \<open>IOError\<close> of \<open>read\<close>.
\<close>

theorem read_raises_other_errors:
  "suffix ''Username : '' (CHR 0x80 # ''Username : '') \<and>
   read (str ''Username : '') (fresh [Data (CHR 0x80 # ''Username : '')]) =
     (Inl UnicodeDecodeError, fresh []) \<and>
   UnicodeDecodeError \<noteq> failed_read"
  by (simp add: read_def fresh_def read_until_def encode_cp_def suffix_ConsI failed_read_def)

subsection \<open>Resetting to the top level\<close>

lemma bind_discard: "bind (bind m (\<lambda>_. ret ())) (\<lambda>_. k) = bind m (\<lambda>_. k)"
  by (rule ext) (simp add: bind_def ret_def split: prod.splits sum.splits)

lemma reset_level_unfolded:
  "reset_level =
     bind (send (str ''..'')) (\<lambda>_. bind (send (str ''..'')) (\<lambda>_.
     bind (send (str ''..'')) (\<lambda>_. bind (send (str ''..'')) (\<lambda>_. ret ()))))"
proof -
  have four: "(4::nat) = Suc (Suc (Suc (Suc 0)))"
    by simp
  show ?thesis
    unfolding reset_level_def four for_range.simps bind_discard ..
qed






lemma reset_run:
  "reset_level (logged_in (go_up_replies @ rs)) =
     (Inr (), \<lparr>conn = \<lparr>incoming = rs, breaks = [], outgoing = [go_up, go_up, go_up, go_up], closed = 0\<rparr>,
               username = str ''Administrator'', password = [], connected = True\<rparr>)"
  by (simp add: reset_level_unfolded run go_up_def char_of_eq_iff)



section \<open>Properties of the device profile\<close>

lemma xdsl_fields_missing:
  assumes "find (\<lambda>k. kv k = None) required_keys = Some k"
    and "\<forall>v. kv uptime_key = Some v \<longrightarrow> (\<exists>n. xdsl_uptime v = Inr n)"
    and "\<forall>v. kv bandwidth_key = Some v \<longrightarrow> (\<exists>n. xdsl_bandwidth v = Inr n)"
  shows "xdsl_fields kv = Inl (KeyError k)"
proof (cases "kv uptime_key")
  case None
  then show ?thesis
    using assms(1) by (simp add: required_keys_def xdsl_fields_def lookup_def bind_err_def)
next
  case up: (Some u)
  then obtain n where n: "xdsl_uptime u = Inr n"
    using assms(2) by blast
  show ?thesis
  proof (cases "kv bandwidth_key")
    case None
    then show ?thesis
      using assms(1) up n
      by (simp add: required_keys_def xdsl_fields_def lookup_def bind_err_def)
  next
    case bw: (Some b)
    then obtain d where d: "xdsl_bandwidth b = Inr d"
      using assms(3) by blast
    show ?thesis
      using assms(1) up n bw d
      by (cases d) (auto simp: required_keys_def xdsl_fields_def lookup_def bind_err_def
          split: if_splits option.splits)
  qed
qed

text \<open>
  C6, as amended. When the output of \<open>xdsl info\<close> has been read and parsed, a required
  key is absent from it, and the uptime and bandwidth values that are present
  convert, \<open>get_xdsl_info\<close> raises \<open>KeyError\<close> for the first absent key in the order of
  the lookups. The exception carries that key and nothing else, and it is not the
  \<open>IOError\<close> of \<open>read\<close>.
\<close>

theorem get_xdsl_info_missing_key_raises_KeyError:
  assumes "reset_level self = (Inr (), self1)"
    and "send (str ''xdsl info'') self1 = (Inr out, self2)"
    and "parse_key_value (split_on 10 out) (str '':'') = Inr kv"
    and "find (\<lambda>k. kv k = None) required_keys = Some k"
    and "\<forall>v. kv uptime_key = Some v \<longrightarrow> (\<exists>n. xdsl_uptime v = Inr n)"
    and "\<forall>v. kv bandwidth_key = Some v \<longrightarrow> (\<exists>n. xdsl_bandwidth v = Inr n)"
  shows "get_xdsl_info self = (Inl (KeyError k), self2) \<and> error_args (KeyError k) = [k] \<and>
         KeyError k \<noteq> failed_read"
  using assms(1-3) xdsl_fields_missing [OF assms(4-6)]
  by (simp add: get_xdsl_info_def bind_def lift_def bind_err_def failed_read_def)

theorem get_xdsl_info_missing_key_raises_KeyError_witness:
  "fst (get_xdsl_info (logged_in (xdsl_script xdsl_no_state))) = Inl (KeyError state_key)"
proof -
  let ?out = "str ''Up time (Days hh:mm:ss): 1, 00:00:00'' @ [10] @
     str ''Bandwidth (Down/Up - kbit/s): 8000/800'' @ [10] @ str ''xDSL Type: VDSL2'' @ [10]"
  let ?kv = "[uptime_key \<mapsto> str ''1, 00:00:00'', bandwidth_key \<mapsto> str ''8000/800'',
              type_key \<mapsto> str ''VDSL2'']"
  let ?s1 = "\<lparr>conn = \<lparr>incoming = [echo ''xdsl info'', Data (xdsl_no_state @ ''{Administrator}'')],
                       breaks = [],
                       outgoing = [go_up, go_up, go_up, go_up], closed = 0\<rparr>,
               username = str ''Administrator'', password = [], connected = True\<rparr>"
  let ?s2 = "\<lparr>conn = \<lparr>incoming = [], breaks = [],
                       outgoing = [go_up, go_up, go_up, go_up, ''xdsl info'' @ [CHR 0x0D, CHR 0x0A]],
                       closed = 0\<rparr>,
               username = str ''Administrator'', password = [], connected = True\<rparr>"
  have 1: "reset_level (logged_in (xdsl_script xdsl_no_state)) = (Inr (), ?s1)"
    unfolding xdsl_script_def by (rule reset_run)
  have 2: "send (str ''xdsl info'') ?s1 = (Inr ?out, ?s2)"
    by (simp add: run xdsl_no_state_def char_of_eq_iff)
  have 3: "parse_key_value (split_on 10 ?out) (str '':'') = Inr ?kv"
    by (simp add: parse_key_value_def strip_def is_space_def uptime_key_def bandwidth_key_def
        type_key_def)
  have 4: "find (\<lambda>k. ?kv k = None) required_keys = Some state_key"
    by (simp add: required_keys_def uptime_key_def bandwidth_key_def type_key_def state_key_def)
  have 5: "\<forall>v. ?kv uptime_key = Some v \<longrightarrow> (\<exists>n. xdsl_uptime v = Inr n)"
    by (simp add: uptime_key_def bandwidth_key_def type_key_def xdsl_uptime_def bind_err_def
        index_def strip_def is_space_def py_int_def is_digit_def digit_val_def strptime_HMS_def)
  have 6: "\<forall>v. ?kv bandwidth_key = Some v \<longrightarrow> (\<exists>n. xdsl_bandwidth v = Inr n)"
    by (simp add: uptime_key_def bandwidth_key_def type_key_def xdsl_bandwidth_def bind_err_def
        index_def strip_def is_space_def py_int_def is_digit_def digit_val_def)
  show ?thesis
    using get_xdsl_info_missing_key_raises_KeyError [OF 1 2 3 4 5 6] by simp
qed

text \<open>
  C6 as stated fails. When the uptime line carries another label, the \<open>KeyError\<close>
  holds the missing key only: the command \<open>xdsl info\<close> is neither one of its arguments
  nor part of one. And when the uptime is present but does not convert, the other
  required keys are absent and the error is a \<open>ValueError\<close>, which names no key.
\<close>

theorem get_xdsl_info_error_does_not_name_command:
  "fst (get_xdsl_info (logged_in (xdsl_script xdsl_relabelled))) = Inl (KeyError uptime_key) \<and>
   error_args (KeyError uptime_key) = [uptime_key] \<and>
   \<not> sublist (str ''xdsl info'') uptime_key \<and>
   fst (get_xdsl_info (logged_in (xdsl_script xdsl_garbled))) = Inl ValueError"
proof -
  have "fst (get_xdsl_info (logged_in (xdsl_script xdsl_relabelled))) = Inl (KeyError uptime_key)"
    by (simp add: get_xdsl_info_def reset_level_unfolded run xdsl_relabelled_def
        parse_key_value_def strip_def is_space_def bind_err_def xdsl_fields_def lookup_def
        uptime_key_def)
  moreover have "\<not> sublist (str ''xdsl info'') uptime_key"
  proof
    assume "sublist (str ''xdsl info'') uptime_key"
    then have "set (str ''xdsl info'') \<subseteq> set uptime_key"
      by (rule set_mono_sublist)
    then show False
      by (simp add: uptime_key_def)
  qed
  moreover have "fst (get_xdsl_info (logged_in (xdsl_script xdsl_garbled))) = Inl ValueError"
    by (simp add: get_xdsl_info_def reset_level_unfolded run xdsl_garbled_def
        parse_key_value_def strip_def is_space_def bind_err_def xdsl_fields_def lookup_def
        uptime_key_def xdsl_uptime_def index_def py_int_def is_digit_def)
  ultimately show ?thesis by simp
qed

section \<open>Properties of the polling cycle\<close>

lemma keepsI:
  "(\<And>self r self'. m self = (r, self') \<Longrightarrow>
      closed (conn self') = closed (conn self) \<and> (connected self \<longrightarrow> connected self') \<and>
      (breaks (conn self) = [] \<longrightarrow> breaks (conn self') = [])) \<Longrightarrow>
   keeps m"
  by (simp add: keeps_def)

lemma keepsD:
  "keeps m \<Longrightarrow> m self = (r, self') \<Longrightarrow>
     closed (conn self') = closed (conn self) \<and> (connected self \<longrightarrow> connected self') \<and>
     (breaks (conn self) = [] \<longrightarrow> breaks (conn self') = [])"
  by (simp add: keeps_def)

lemma keeps_read: "keeps (read s)"
  by (rule keepsI) (simp add: read_frame)

lemma keeps_read_self: "keeps (\<lambda>self. read (g self) self)"
  by (rule keepsI) (simp add: read_frame)

lemma keeps_write_str: "keeps (write_str s)"
  by (rule keepsI) (simp add: write_str_frame)

lemma keeps_ret: "keeps (ret x)"
  by (rule keepsI) (auto simp: ret_def)

lemma keeps_lift: "keeps (lift r)"
  by (rule keepsI) (auto simp: lift_def)

lemma keeps_connect: "keeps (\<lambda>self. (Inr (), self\<lparr>connected := True\<rparr>))"
  by (rule keepsI) auto

lemma keeps_bind:
  assumes "keeps m" and "\<And>x. keeps (f x)"
  shows "keeps (bind m f)"
proof (rule keepsI)
  fix self r self'
  assume b: "bind m f self = (r, self')"
  obtain r1 s1 where m: "m self = (r1, s1)"
    by (cases "m self")
  show "closed (conn self') = closed (conn self) \<and> (connected self \<longrightarrow> connected self') \<and>
        (breaks (conn self) = [] \<longrightarrow> breaks (conn self') = [])"
  proof (cases r1)
    case (Inl e)
    with b m have "self' = s1"
      by (simp add: bind_def)
    with keepsD [OF assms(1) m] show ?thesis by simp
  next
    case (Inr x)
    with b m have "f x s1 = (r, self')"
      by (simp add: bind_def)
    from keepsD [OF assms(2) this] keepsD [OF assms(1) m] show ?thesis by simp
  qed
qed

lemma keeps_send: "keeps (send c)"
  unfolding send_def by (intro keeps_bind keeps_write_str keeps_read keeps_read_self)

lemma keeps_for_range: "keeps body \<Longrightarrow> keeps (for_range n body)"
  by (induction n) (simp_all add: keeps_ret keeps_bind)

lemma keeps_reset_level: "keeps reset_level"
  unfolding reset_level_def by (intro keeps_for_range keeps_bind keeps_send keeps_ret)

lemma keeps_get_xdsl_info: "keeps get_xdsl_info"
  unfolding get_xdsl_info_def by (intro keeps_bind keeps_reset_level keeps_send keeps_lift)

lemma keeps_get_iflist_info: "keeps get_iflist_info"
  unfolding get_iflist_info_def by (intro keeps_bind keeps_reset_level keeps_send keeps_lift)

lemma keeps_get_all_info: "keeps get_all_info"
  unfolding get_all_info_def
  by (intro keeps_bind keeps_get_xdsl_info keeps_get_iflist_info keeps_ret)

text \<open>The constructor never closes the transport, whether it returns or raises.\<close>

lemma init_closed:
  "closed (conn (snd (init t user pass))) = closed t \<and>
   (breaks t = [] \<longrightarrow> breaks (conn (snd (init t user pass))) = [])"
proof -
  define self0 where "self0 = \<lparr>conn = t,
      username = (case user of None \<Rightarrow> str ''Administrator''
                  | Some u \<Rightarrow> if u = [] then str ''Administrator'' else u),
      password = (case pass of None \<Rightarrow> [] | Some p \<Rightarrow> p), connected = False\<rparr>"
  define steps where "steps =
         bind (read (str ''Username : '')) (\<lambda>_.
         bind (write_str (username self0 @ crlf)) (\<lambda>_.
         bind (read (str ''Password : '')) (\<lambda>_.
         bind (write_str (password self0 @ crlf)) (\<lambda>_.
         bind (\<lambda>self. (Inr (), self\<lparr>connected := True\<rparr>)) (\<lambda>_.
         bind (read (str ''{'' @ username self0 @ str ''}=>'')) (\<lambda>_.
         ret ()))))))"
  have "keeps steps"
    unfolding steps_def
    by (intro keeps_bind keeps_read keeps_write_str keeps_connect keeps_ret)
  moreover have "init t user pass = steps self0"
    by (simp add: init_def Let_def self0_def steps_def)
  ultimately show ?thesis
    using keepsD [of steps self0 "fst (steps self0)" "snd (steps self0)"]
    by (simp add: self0_def)
qed

lemma init_connected:
  assumes "init t user pass = (Inr x, router)"
  shows "connected router"
proof -
  define self0 where "self0 = \<lparr>conn = t,
      username = (case user of None \<Rightarrow> str ''Administrator''
                  | Some u \<Rightarrow> if u = [] then str ''Administrator'' else u),
      password = (case pass of None \<Rightarrow> [] | Some p \<Rightarrow> p), connected = False\<rparr>"
  from assms obtain s4 x6 where
    "read (str ''{'' @ username self0 @ str ''}=>'') (s4\<lparr>connected := True\<rparr>) = (Inr x6, router)"
    unfolding init_def Let_def self0_def [symmetric] bind_Inr ret_def by auto
  from read_frame [OF this] show ?thesis by simp
qed

lemma encode_logout: "encode_utf8 (str ''exit'' @ crlf) = Some logout"
  by (simp add: crlf_def logout_def encode_cp_def char_of_eq_iff)

lemma exit_connected:
  assumes "connected self" and "breaks (conn self) = []"
  shows "exit self =
           (Inr (), self\<lparr>conn := conn_close ((conn self)\<lparr>outgoing := outgoing (conn self) @ [logout]\<rparr>)\<rparr>)"
  using assms write_str_unbroken [OF encode_logout assms(2)]
  by (simp add: exit_def bind_def)

text \<open>
  Whenever the constructor raises, whatever the device sent, the program ends with
  that exception and \<open>close\<close> has not been called: no teardown runs.
\<close>

lemma main_init_failure:
  assumes "fst (init t user pass) = Inl e"
  shows "main t user pass = (Inl e, conn (snd (init t user pass))) \<and>
         closed (snd (main t user pass)) = closed t"
proof -
  have 1: "main t user pass = (Inl e, conn (snd (init t user pass)))"
    using assms by (cases "init t user pass") (simp add: main_def)
  then show ?thesis
    using init_closed [of t user pass] by simp
qed

text \<open>
  C3. Teardown should run once on every exit path of a session that was opened at
  least in part, a timeout during the handshake included. The handshake runs in the
  constructor, before the \<open>with\<close> block is entered, so when one of its reads raises,
  \<open>__exit__\<close> is never called: with a device that stays silent, and with one that
  rejects the login (after \<open>connected\<close> has been set), the program ends with the
  \<open>IOError\<close>, the transport has not been closed and no logout has been written.
\<close>

theorem main_handshake_failure_skips_teardown:
  "main \<lparr>incoming = [], breaks = [], outgoing = [], closed = 0\<rparr> None None =
     (Inl failed_read, \<lparr>incoming = [], breaks = [], outgoing = [], closed = 0\<rparr>) \<and>
   main \<lparr>incoming = rejected_login, breaks = [], outgoing = [], closed = 0\<rparr> None None =
     (Inl failed_read,
      \<lparr>incoming = [], breaks = [],
       outgoing = [''Administrator'' @ [CHR 0x0D, CHR 0x0A], [CHR 0x0D, CHR 0x0A]],
       closed = 0\<rparr>)"
  by (simp add: main_def init_def run rejected_login_def failed_read_def char_of_eq_iff)

text \<open>
  Once the constructor has returned, on a transport whose writes do not fail, teardown
  does run exactly once, whatever the device sends afterwards and whether
  \<open>get_all_info\<close> returns or raises: the transport is closed once, and the last thing
  written is the logout command.
\<close>

lemma main_teardown_once:
  assumes "init t user pass = (Inr x, router)" and "breaks t = []"
  shows "closed (snd (main t user pass)) = closed t + 1 \<and>
         (\<exists>sent. outgoing (snd (main t user pass)) = sent @ [logout])"
proof -
  obtain r router' where body: "get_all_info router = (r, router')"
    by (cases "get_all_info router")
  have c: "closed (conn router) = closed t" "breaks (conn router) = []"
    using init_closed [of t user pass] assms by simp_all
  have k: "closed (conn router') = closed (conn router)" "connected router'"
    "breaks (conn router') = []"
    using keepsD [OF keeps_get_all_info body] init_connected [OF assms(1)] c(2) by simp_all
  have "main t user pass =
          (case r of Inl e \<Rightarrow> Inl e | Inr d \<Rightarrow> Inr (name, d),
           conn_close ((conn router')\<lparr>outgoing := outgoing (conn router') @ [logout]\<rparr>))"
    using assms(1) body exit_connected [OF k(2,3)]
    by (simp add: main_def split: sum.splits)
  then show ?thesis
    using c k by (simp add: conn_close_def)
qed

lemma main_teardown_once_example:
  "closed (snd (main \<lparr>incoming = login_replies, breaks = [], outgoing = [], closed = 0\<rparr>
      None None)) = 1 \<and>
   (\<exists>sent. outgoing (snd (main \<lparr>incoming = login_replies, breaks = [], outgoing = [],
      closed = 0\<rparr> None None)) = sent @ [logout])"
  using main_teardown_once [OF init_accepted] by simp

text \<open>
  When the peer has closed the connection, the logout write of \<open>__exit__\<close> raises and
  \<open>close\<close> is not reached: the device accepts the login and closes the stream after the
  first command, the block ends with the \<open>EOFError\<close> of its read, the logout write
  raises \<open>BrokenPipeError\<close>, which replaces it, and the transport has not been closed.
\<close>

lemma main_logout_failure_skips_close:
  "main \<lparr>incoming = login_replies @ [Eof], breaks = [False, False, False, True],
         outgoing = [], closed = 0\<rparr> None None =
     (Inl BrokenPipeError,
      \<lparr>incoming = [], breaks = [],
       outgoing = [''Administrator'' @ [CHR 0x0D, CHR 0x0A], [CHR 0x0D, CHR 0x0A], go_up],
       closed = 0\<rparr>)"
  by (simp add: main_def init_def get_all_info_def get_xdsl_info_def reset_level_unfolded
      exit_def run login_replies_def go_up_def char_of_eq_iff)

end
